theory Spec2Isabelle
  imports Complex_Main
begin

section \<open>TimeCapsule: geospatial anchoring and gesture interaction\<close>

text \<open>
  A shallow embedding of the gesture classifier, the interaction effect, the anchor
  projection and the unlock decisions of \<^verbatim>\<open>components/ARView.tsx\<close> (which also
  holds \<^verbatim>\<open>CapsuleList\<close>), and of the nearby filter, the scan handler and the save
  handler of the \<^verbatim>\<open>App\<close> component. JavaScript numbers are modelled as reals.
\<close>

subsection \<open>Data\<close>

text \<open>\<^verbatim>\<open>Coordinates\<close>: latitude and longitude in degrees.\<close>

record coordinates =
  latitude :: real
  longitude :: real

text \<open>
  One hand landmark as the perception library delivers it: three normalised components.
  \<^verbatim>\<open>detectGesture\<close> reads \<^verbatim>\<open>.x\<close> and \<^verbatim>\<open>.y\<close> only. The fields are
  named \<open>lm_x\<close>, \<open>lm_y\<close>, \<open>lm_z\<close> here.
\<close>

record landmark =
  lm_x :: real
  lm_y :: real
  lm_z :: real

text \<open>The hand gesture state \<^verbatim>\<open>'OPEN' | 'CLOSED' | 'NONE'\<close>.\<close>

datatype gesture = OPEN | CLOSED | NONE

datatype js_error = TypeError

subsection \<open>The gesture classifier\<close>

text \<open>
  \<^verbatim>\<open>landmarks[i]\<close>: reading past the end of a JavaScript array gives
  \<^verbatim>\<open>undefined\<close>, and reading a property of \<^verbatim>\<open>undefined\<close> throws a
  \<^verbatim>\<open>TypeError\<close>. The read is an option; each use of the value turns \<open>None\<close>
  into the error.
\<close>

definition elemAt :: "'a list \<Rightarrow> nat \<Rightarrow> 'a option" where
  "elemAt xs i = (if i < length xs then Some (xs ! i) else None)"

text \<open>
  The expression
  \<^verbatim>\<open>Math.sqrt(Math.pow(p.x - wrist.x, 2) + Math.pow(p.y - wrist.y, 2))\<close>,
  which the source writes out three times (for \<^verbatim>\<open>palmSize\<close>,
  \<^verbatim>\<open>distToWrist\<close> and \<^verbatim>\<open>thumbDist\<close>).
\<close>

definition distToWrist :: "landmark \<Rightarrow> landmark \<Rightarrow> real" where
  "distToWrist p wrist = sqrt ((lm_x p - lm_x wrist)\<^sup>2 + (lm_y p - lm_y wrist)\<^sup>2)"

definition palmSize :: "landmark \<Rightarrow> landmark \<Rightarrow> real" where
  "palmSize wrist middleMCP = distToWrist middleMCP wrist"

definition tips :: "nat list" where
  "tips = [8, 12, 16, 20]"

text \<open>The \<^verbatim>\<open>tips.forEach\<close> loop, counting in \<^verbatim>\<open>foldedFingers\<close>.\<close>

fun foldedTips :: "landmark list \<Rightarrow> landmark \<Rightarrow> real \<Rightarrow> nat list \<Rightarrow> nat \<Rightarrow> nat option" where
  "foldedTips landmarks wrist palm [] n = Some n"
| "foldedTips landmarks wrist palm (tipIdx # rest) n =
     (case elemAt landmarks tipIdx of
        None \<Rightarrow> None
      | Some tip \<Rightarrow>
          foldedTips landmarks wrist palm rest
            (if distToWrist tip wrist < palm * (16 / 10) then n + 1 else n))"

text \<open>
  The value of \<^verbatim>\<open>foldedFingers\<close> when the classification is made; \<open>None\<close> when
  a landmark read before that point throws.
\<close>

definition foldedFingers :: "landmark list \<Rightarrow> nat option" where
  "foldedFingers landmarks =
     (case elemAt landmarks 0 of
        None \<Rightarrow> None
      | Some wrist \<Rightarrow>
     (case elemAt landmarks 9 of
        None \<Rightarrow> None
      | Some middleMCP \<Rightarrow>
     (case foldedTips landmarks wrist (palmSize wrist middleMCP) tips 0 of
        None \<Rightarrow> None
      | Some n \<Rightarrow>
     (case elemAt landmarks 4 of
        None \<Rightarrow> None
      | Some thumbTip \<Rightarrow>
          Some (if distToWrist thumbTip wrist < palmSize wrist middleMCP * (13 / 10)
                then n + 1 else n)))))"

text \<open>\<^verbatim>\<open>newState\<close>: \<open>NONE\<close> stands for the ambiguous classification.\<close>

definition newState :: "nat \<Rightarrow> gesture" where
  "newState n = (if n \<ge> 4 then CLOSED else if n \<le> 1 then OPEN else NONE)"

text \<open>
  \<^verbatim>\<open>detectGesture\<close>. The first argument is the value of \<^verbatim>\<open>handGesture\<close> that
  the function's closure sees. The result is \<open>Inl TypeError\<close> when a landmark read
  throws, \<open>Inr (Some s)\<close> when \<^verbatim>\<open>setHandGesture(s)\<close> is called and \<open>Inr None\<close>
  when no setter is called.
\<close>

definition detectGesture :: "gesture \<Rightarrow> landmark list \<Rightarrow> js_error + gesture option" where
  "detectGesture handGesture landmarks =
     (case foldedFingers landmarks of
        None \<Rightarrow> Inl TypeError
      | Some n \<Rightarrow>
          if newState n \<noteq> NONE \<and> newState n \<noteq> handGesture
          then Inr (Some (newState n))
          else Inr None)"

text \<open>
  The state \<^verbatim>\<open>handGesture\<close> after one invocation: \<^verbatim>\<open>setHandGesture(s)\<close>
  replaces it, no call leaves it.
\<close>

definition gestureAfter :: "gesture \<Rightarrow> gesture option \<Rightarrow> gesture" where
  "gestureAfter cur r = (case r of Some s \<Rightarrow> s | None \<Rightarrow> cur)"

subsection \<open>Capsules and the state of the AR view\<close>

text \<open>
  \<^verbatim>\<open>Capsule\<close>, with the fields that \<^verbatim>\<open>handleSaveCapsule\<close> fills in
  (\<^verbatim>\<open>id\<close> and \<^verbatim>\<open>image\<close> are named \<open>capsule_id\<close> and \<open>image_data\<close>).
\<close>

record capsule =
  capsule_id :: string
  content :: string
  timestamp :: nat
  coordinates :: coordinates
  locationName :: string
  aiAnalysis :: string
  isLocked :: bool
  image_data :: "string option"
  video :: "string option"
  audio :: "string option"
  signalData :: "string option"
  userId :: string

record ar_state =
  handGesture :: gesture
  handDetected :: bool
  debugStatus :: string
  selectedCapsule :: "capsule option"

text \<open>
  The \<^verbatim>\<open>for (const landmarks of results.multiHandLandmarks)\<close> loop of
  \<^verbatim>\<open>hands.onResults\<close>. Every call of \<^verbatim>\<open>detectGesture\<close> sees the same closure
  value \<open>hg\<close>; \<open>cur\<close> is \<^verbatim>\<open>handGesture\<close> after the setter calls made so far.
  A throw ends the loop and leaves the calls made before it in place.
\<close>

fun detectAll :: "gesture \<Rightarrow> landmark list list \<Rightarrow> gesture \<Rightarrow> js_error option \<times> gesture" where
  "detectAll hg [] cur = (None, cur)"
| "detectAll hg (landmarks # rest) cur =
     (case detectGesture hg landmarks of
        Inl e \<Rightarrow> (Some e, cur)
      | Inr r \<Rightarrow> detectAll hg rest (gestureAfter cur r))"

text \<open>
  The callback of \<^verbatim>\<open>hands.onResults\<close>. \<open>canvasReady\<close> says that
  \<^verbatim>\<open>handCanvasRef.current\<close> and its 2d context exist (the two early returns);
  \<open>streamActive\<close> and \<open>hg\<close> are the closure's values of \<^verbatim>\<open>streamActive\<close> and
  \<^verbatim>\<open>handGesture\<close>; \<open>multiHandLandmarks\<close> is \<open>None\<close> when the field is absent.
  The result is the error thrown, if any, and the state after the setter calls.
  Drawing on the canvas is not part of the state.
\<close>

definition onResults ::
  "bool \<Rightarrow> bool \<Rightarrow> gesture \<Rightarrow> landmark list list option \<Rightarrow> ar_state
     \<Rightarrow> js_error option \<times> ar_state" where
  "onResults canvasReady streamActive hg multiHandLandmarks st =
     (if \<not> canvasReady then (None, st)
      else case multiHandLandmarks of
        Some (h # hs) \<Rightarrow>
          (let st1 = st\<lparr>handDetected := True, debugStatus := ''TARGET ACQUIRED''\<rparr>;
               r = detectAll hg (h # hs) (handGesture st1)
           in (fst r, st1\<lparr>handGesture := snd r\<rparr>))
      | _ \<Rightarrow>
          (None, st\<lparr>handDetected := False, handGesture := NONE,
                    debugStatus := (if streamActive then ''SCANNING FOR HAND SIGNAL...''
                                    else debugStatus st)\<rparr>))"

subsection \<open>The interaction effect\<close>

text \<open>
  The effect under \<^verbatim>\<open>// --- 3. Interaction Logic ---\<close>; the result is
  \<^verbatim>\<open>selectedCapsule\<close> after it. The distance function of
  \<^verbatim>\<open>utils/geoUtils\<close> is a parameter. \<^verbatim>\<open>[...capsules].sort(cmp)\<close> with
  \<^verbatim>\<open>cmp(a, b) = d(a) - d(b)\<close> is a stable sort by ascending \<open>d\<close>
  (\<^verbatim>\<open>Array.prototype.sort\<close> is stable), which is what \<^const>\<open>sort_key\<close> computes.
\<close>

definition interactionEffect ::
  "(coordinates \<Rightarrow> coordinates \<Rightarrow> real) \<Rightarrow> gesture \<Rightarrow> capsule list \<Rightarrow> coordinates
     \<Rightarrow> capsule option \<Rightarrow> capsule option" where
  "interactionEffect calcDist hGesture capsules userLocation selected =
     (if hGesture = OPEN \<and> selected = None then
        (if length capsules > 0 then
           (let sorted = sort_key (\<lambda>c. calcDist userLocation (coordinates c)) capsules
            in Some (hd sorted))
         else selected)
      else if hGesture = CLOSED \<and> selected \<noteq> None then None
      else selected)"

subsection \<open>Anchor projection and unlock decisions\<close>

definition visualDistanceOf :: "real \<Rightarrow> real" where
  "visualDistanceOf distance = max 5 (min (distance / 5) 50)"

record capsule_object =
  angleRad :: real
  visualDistance :: real
  position :: "real \<times> real \<times> real"
  isUnlockable :: bool

text \<open>
  The body of \<^verbatim>\<open>capsules.forEach\<close> in the capsule object creation effect, up to
  the colours chosen from \<^verbatim>\<open>isUnlockable\<close>. Distance and bearing functions are
  parameters.
\<close>

definition capsuleObject ::
  "(coordinates \<Rightarrow> coordinates \<Rightarrow> real) \<Rightarrow> (coordinates \<Rightarrow> coordinates \<Rightarrow> real)
     \<Rightarrow> coordinates \<Rightarrow> capsule \<Rightarrow> capsule_object" where
  "capsuleObject calcDist calcBearing userLocation c =
     (let distance = calcDist userLocation (coordinates c);
          bearing = calcBearing userLocation (coordinates c);
          angle = (90 - bearing) * (pi / 180);
          vd = visualDistanceOf distance;
          px = cos angle * vd;
          pz = - sin angle * vd
      in \<lparr>angleRad = angle, visualDistance = vd, position = (px, 0, pz),
          isUnlockable = (distance < 50)\<rparr>)"

text \<open>
  The details panel of the selected capsule shows the content when
  \<^verbatim>\<open>calculateDistance(userLocation, selectedCapsule.coordinates) < 50\<close>.
\<close>

definition panelUnlocked ::
  "(coordinates \<Rightarrow> coordinates \<Rightarrow> real) \<Rightarrow> coordinates \<Rightarrow> capsule \<Rightarrow> bool" where
  "panelUnlocked calcDist userLocation selected =
     (calcDist userLocation (coordinates selected) < 50)"

text \<open>
  \<^verbatim>\<open>CapsuleList\<close>: the distance of a row is \<^verbatim>\<open>Infinity\<close> when
  \<^verbatim>\<open>currentLocation\<close> is null.
\<close>

datatype distance = Meters real | Infinity

definition listDistance ::
  "(coordinates \<Rightarrow> coordinates \<Rightarrow> real) \<Rightarrow> coordinates option \<Rightarrow> capsule \<Rightarrow> distance" where
  "listDistance calcDist currentLocation c =
     (case currentLocation of
        Some loc \<Rightarrow> Meters (calcDist loc (coordinates c))
      | None \<Rightarrow> Infinity)"

definition listIsUnlockable ::
  "(coordinates \<Rightarrow> coordinates \<Rightarrow> real) \<Rightarrow> coordinates option \<Rightarrow> capsule \<Rightarrow> bool" where
  "listIsUnlockable calcDist currentLocation c =
     (case listDistance calcDist currentLocation c of
        Meters d \<Rightarrow> d < 50
      | Infinity \<Rightarrow> False)"

subsection \<open>The App component: nearby filter, scan and save\<close>

datatype view_state = Radar | Create | ViewCapsule | ArView | Profile | SignalComposer

record user =
  user_id :: string
  username :: string
  avatar :: string
  bio :: string

record app_state =
  currentUser :: "user option"
  currentView :: view_state
  location :: "coordinates option"
  isScanning :: bool
  capsules :: "capsule list"
  nearbyCapsules :: "capsule list"
  statusMessage :: string

text \<open>Decimal rendering of a count or a clock value, as a template literal does.\<close>

definition digitChar :: "nat \<Rightarrow> char" where
  "digitChar d = ''0123456789'' ! d"

fun toString :: "nat \<Rightarrow> string" where
  "toString n = (if n < 10 then [digitChar n] else toString (n div 10) @ [digitChar (n mod 10)])"

declare toString.simps [simp del]

text \<open>
  The effect \<^verbatim>\<open>// Filter nearby capsules whenever location or capsules change\<close>:
  it runs when \<^verbatim>\<open>location\<close> or \<^verbatim>\<open>capsules\<close> changes and does nothing while
  \<^verbatim>\<open>location\<close> is null.
\<close>

definition nearbyEffect :: "(coordinates \<Rightarrow> coordinates \<Rightarrow> real) \<Rightarrow> app_state \<Rightarrow> app_state" where
  "nearbyEffect calcDist st =
     (case location st of
        Some loc \<Rightarrow>
          st\<lparr>nearbyCapsules := filter (\<lambda>c. calcDist loc (coordinates c) \<le> 1000) (capsules st)\<rparr>
      | None \<Rightarrow> st)"

text \<open>
  \<^verbatim>\<open>handleScan\<close>, the part before the timer: the state after it, and the value of
  \<^verbatim>\<open>nearbyCapsules\<close> that the timer callback closes over.
\<close>

definition handleScan :: "app_state \<Rightarrow> app_state \<times> capsule list" where
  "handleScan st =
     (st\<lparr>statusMessage :=
            (if location st = None
             then ''WARNING: SATELLITE LINK UNSTABLE. SCANNING CACHED SECTOR...''
             else ''SCANNING LOCAL SECTOR (1KM RADIUS)...''),
         isScanning := True\<rparr>,
      nearbyCapsules st)"

text \<open>
  The callback of \<^verbatim>\<open>setTimeout(..., 2000)\<close>, run on the state of the moment it
  fires, with the captured \<^verbatim>\<open>nearbyCapsules\<close>.
\<close>

definition scanTimeout :: "capsule list \<Rightarrow> app_state \<Rightarrow> app_state" where
  "scanTimeout captured st =
     (if length captured > 0 then
        st\<lparr>isScanning := False,
           statusMessage := toString (length captured) @ '' SIGNALS DETECTED. ENGAGING HUD.'',
           currentView := ArView\<rparr>
      else
        st\<lparr>isScanning := False, statusMessage := ''NO TRACES FOUND IN SECTOR.''\<rparr>)"

text \<open>
  \<^verbatim>\<open>handleSaveCapsule\<close>; \<open>now1\<close> and \<open>now2\<close> are the two readings of
  \<^verbatim>\<open>Date.now()\<close>.
\<close>

definition handleSaveCapsule ::
  "nat \<Rightarrow> nat \<Rightarrow> string \<Rightarrow> string \<Rightarrow> string \<Rightarrow> string option \<Rightarrow> string option
     \<Rightarrow> string option \<Rightarrow> string option \<Rightarrow> app_state \<Rightarrow> app_state" where
  "handleSaveCapsule now1 now2 cont analysis locName img vid aud sig st =
     (case currentUser st of
        None \<Rightarrow> st
      | Some u \<Rightarrow>
          (let activeLocation =
                 (case location st of
                    Some loc \<Rightarrow> loc
                  | None \<Rightarrow> \<lparr>latitude = 0, longitude = 0\<rparr>);
               newCapsule =
                 \<lparr>capsule_id = toString now1, content = cont, timestamp = now2,
                  coordinates = activeLocation, locationName = locName,
                  aiAnalysis = analysis, isLocked = False, image_data = img,
                  video = vid, audio = aud, signalData = sig, userId = user_id u\<rparr>
           in st\<lparr>capsules := capsules st @ [newCapsule], currentView := Radar,
                 statusMessage := ''MEMORY TRACE ESTABLISHED.''\<rparr>))"

text \<open>The AR view is rendered under \<^verbatim>\<open>currentView === 'ar-view' && location\<close>.\<close>

definition arViewRendered :: "app_state \<Rightarrow> bool" where
  "arViewRendered st = (currentView st = ArView \<and> location st \<noteq> None)"

text \<open>
  What can happen between a scan trigger and its timer: a position from the GPS watcher,
  a GPS error, a new capsule list from storage, a saved capsule, a navigation button, a
  logout, another scan trigger, and the timer of an earlier scan (with the nearby
  capsules that one captured). The nearby effect runs after each change of
  \<^verbatim>\<open>location\<close> or \<^verbatim>\<open>capsules\<close>.
\<close>

datatype app_event =
    GpsPosition coordinates
  | GpsError
  | CapsulesLoaded "capsule list"
  | SaveCapsule nat nat string string string
  | SetCurrentView view_state
  | Logout
  | ScanTrigger
  | EarlierScanTimeout "capsule list"

fun appStep :: "(coordinates \<Rightarrow> coordinates \<Rightarrow> real) \<Rightarrow> app_event \<Rightarrow> app_state \<Rightarrow> app_state" where
  "appStep calcDist (GpsPosition c) st =
     nearbyEffect calcDist (st\<lparr>location := Some c, statusMessage := ''GPS LOCKED. SYSTEM ONLINE.''\<rparr>)"
| "appStep calcDist GpsError st = st\<lparr>statusMessage := ''WARNING: GPS SIGNAL LOST''\<rparr>"
| "appStep calcDist (CapsulesLoaded cs) st = nearbyEffect calcDist (st\<lparr>capsules := cs\<rparr>)"
| "appStep calcDist (SaveCapsule now1 now2 cont analysis locName) st =
     nearbyEffect calcDist
       (handleSaveCapsule now1 now2 cont analysis locName None None None None st)"
| "appStep calcDist (SetCurrentView v) st = st\<lparr>currentView := v\<rparr>"
| "appStep calcDist Logout st =
     nearbyEffect calcDist (st\<lparr>currentUser := None, capsules := [], currentView := Radar\<rparr>)"
| "appStep calcDist ScanTrigger st = fst (handleScan st)"
| "appStep calcDist (EarlierScanTimeout captured) st = scanTimeout captured st"

definition appRun :: "(coordinates \<Rightarrow> coordinates \<Rightarrow> real) \<Rightarrow> app_event list \<Rightarrow> app_state \<Rightarrow> app_state" where
  "appRun calcDist evs st = fold (appStep calcDist) evs st"

text \<open>
  One scan: the trigger on \<open>st\<close>, the events \<open>evs\<close> of the latency window, then the
  timer callback. \<open>beforeTimeout\<close> is the state the callback finds.
\<close>

definition beforeTimeout ::
  "(coordinates \<Rightarrow> coordinates \<Rightarrow> real) \<Rightarrow> app_state \<Rightarrow> app_event list \<Rightarrow> app_state" where
  "beforeTimeout calcDist st evs = appRun calcDist evs (fst (handleScan st))"

definition scanRun ::
  "(coordinates \<Rightarrow> coordinates \<Rightarrow> real) \<Rightarrow> app_state \<Rightarrow> app_event list \<Rightarrow> app_state" where
  "scanRun calcDist st evs = scanTimeout (snd (handleScan st)) (beforeTimeout calcDist st evs)"

subsection \<open>Reference definitions\<close>

text \<open>
  Modelled from the spec: \<^verbatim>\<open>calculateDistance\<close> of \<^verbatim>\<open>utils/geoUtils\<close>, which is
  not among the sources. The specification gives it as the haversine great-circle
  distance in meters on a sphere of radius 6 371 000 m, with coordinates in degrees.
\<close>

definition calculateDistance :: "coordinates \<Rightarrow> coordinates \<Rightarrow> real" where
  "calculateDistance a b =
     (let phi1 = latitude a * pi / 180;
          phi2 = latitude b * pi / 180;
          dphi = (latitude b - latitude a) * pi / 180;
          dlam = (longitude b - longitude a) * pi / 180;
          h = (sin (dphi / 2))\<^sup>2 + cos phi1 * cos phi2 * (sin (dlam / 2))\<^sup>2
      in 6371000 * (2 * arcsin (sqrt h)))"

text \<open>
  The specification's wording of the classifier, on the three components of a landmark:
  \<open>spec_euclideanDistance\<close> is the distance of two 3D points and \<open>spec_foldedCount\<close>
  counts the folded fingers of a frame of 21 landmarks with it.
\<close>

definition spec_euclideanDistance :: "landmark \<Rightarrow> landmark \<Rightarrow> real" where
  "spec_euclideanDistance p q =
     sqrt ((lm_x p - lm_x q)\<^sup>2 + (lm_y p - lm_y q)\<^sup>2 + (lm_z p - lm_z q)\<^sup>2)"

definition spec_foldedCount :: "landmark list \<Rightarrow> nat" where
  "spec_foldedCount f =
     (let wrist = f ! 0;
          palm = spec_euclideanDistance wrist (f ! 9)
      in length (filter (\<lambda>i. spec_euclideanDistance (f ! i) wrist < palm * (16 / 10)) [8, 12, 16, 20])
         + (if spec_euclideanDistance (f ! 4) wrist < palm * (13 / 10) then 1 else 0))"

text \<open>
  Reading a decimal numeral back: \<open>digitOf\<close> is the position of a character in
  \<open>0123456789\<close> and \<open>decimalValue\<close> the number that a string of digits denotes in
  base ten.
\<close>

definition digitOf :: "char \<Rightarrow> nat" where
  "digitOf c = length (takeWhile (\<lambda>d. d \<noteq> c) ''0123456789'')"

definition decimalValue :: "string \<Rightarrow> nat" where
  "decimalValue ds = foldl (\<lambda>a c. 10 * a + digitOf c) 0 ds"

text \<open>The clamp of the specification's projector.\<close>

definition clamp :: "real \<Rightarrow> real \<Rightarrow> real \<Rightarrow> real" where
  "clamp v lo hi = (if v < lo then lo else if hi < v then hi else v)"

subsection \<open>Concrete frames\<close>

text \<open>
  Three landmarks with all components in \<open>[0, 1]\<close>: a wrist, a knuckle that lies nearly
  behind the wrist (close to it in the image, away from it in depth), and a fingertip.
\<close>

definition wristPt :: landmark where
  "wristPt = \<lparr>lm_x = 50 / 100, lm_y = 50 / 100, lm_z = 0\<rparr>"

definition knucklePt :: landmark where
  "knucklePt = \<lparr>lm_x = 53 / 100, lm_y = 54 / 100, lm_z = 12 / 100\<rparr>"

definition tipPt :: landmark where
  "tipPt = \<lparr>lm_x = 56 / 100, lm_y = 58 / 100, lm_z = 0\<rparr>"

text \<open>A frame of 21 landmarks: knuckle at index 9, the five tips at 4, 8, 12, 16, 20.\<close>

definition depthFrame :: "landmark list" where
  "depthFrame =
     [wristPt, wristPt, wristPt, wristPt, tipPt, wristPt, wristPt, wristPt, tipPt, knucklePt,
      wristPt, wristPt, tipPt, wristPt, wristPt, wristPt, tipPt, wristPt, wristPt, wristPt, tipPt]"

text \<open>A frame of 21 landmarks with every tip on the wrist.\<close>

definition fistFrame :: "landmark list" where
  "fistFrame =
     [wristPt, wristPt, wristPt, wristPt, wristPt, wristPt, wristPt, wristPt, wristPt, knucklePt,
      wristPt, wristPt, wristPt, wristPt, wristPt, wristPt, wristPt, wristPt, wristPt, wristPt,
      wristPt]"

text \<open>A frame of 21 landmarks with two of the five tips (thumb and index) on the wrist.\<close>

definition halfFrame :: "landmark list" where
  "halfFrame =
     [wristPt, wristPt, wristPt, wristPt, wristPt, wristPt, wristPt, wristPt, wristPt, knucklePt,
      wristPt, wristPt, tipPt, wristPt, wristPt, wristPt, tipPt, wristPt, wristPt, wristPt,
      tipPt]"

text \<open>A frame of the wrong landmark count: five landmarks.\<close>

definition shortFrame :: "landmark list" where
  "shortFrame = [wristPt, wristPt, wristPt, wristPt, tipPt]"

definition openState :: ar_state where
  "openState = \<lparr>handGesture = OPEN, handDetected = True, debugStatus = ''TARGET ACQUIRED'',
                 selectedCapsule = None\<rparr>"

subsection \<open>Concrete places, capsules and states\<close>

definition origin :: coordinates where
  "origin = \<lparr>latitude = 0, longitude = 0\<rparr>"

text \<open>The point on the meridian of \<open>origin\<close> that lies \<open>m\<close> meters to the north.\<close>

definition northOf :: "real \<Rightarrow> coordinates" where
  "northOf m = \<lparr>latitude = m * 180 / (6371000 * pi), longitude = 0\<rparr>"

definition capsuleAt :: "string \<Rightarrow> coordinates \<Rightarrow> capsule" where
  "capsuleAt i p =
     \<lparr>capsule_id = i, content = ''memo'', timestamp = 0, coordinates = p,
      locationName = ''Sector'', aiAnalysis = ''log'', isLocked = False, image_data = None,
      video = None, audio = None, signalData = None, userId = ''usr_1''\<rparr>"

definition capHere1 :: capsule where "capHere1 = capsuleAt ''1'' origin"
definition capHere2 :: capsule where "capHere2 = capsuleAt ''2'' origin"
definition cap10 :: capsule where "cap10 = capsuleAt ''3'' (northOf 10)"
definition cap30 :: capsule where "cap30 = capsuleAt ''4'' (northOf 30)"
definition cap49 :: capsule where "cap49 = capsuleAt ''5'' (northOf 49)"
definition cap50 :: capsule where "cap50 = capsuleAt ''6'' (northOf 50)"

definition operator :: user where
  "operator = \<lparr>user_id = ''usr_1'', username = ''op'', avatar = ''a'', bio = ''b''\<rparr>"

text \<open>A state with a fix at \<open>origin\<close> and three nearby capsules, on the radar view.\<close>

definition threeNearby :: app_state where
  "threeNearby =
     \<lparr>currentUser = Some operator, currentView = Radar, location = Some origin,
      isScanning = False, capsules = [capHere1, cap10, cap30],
      nearbyCapsules = [capHere1, cap10, cap30], statusMessage = ''GPS LOCKED. SYSTEM ONLINE.''\<rparr>"

text \<open>A state with a fix and no capsule at all.\<close>

definition noneNearby :: app_state where
  "noneNearby =
     \<lparr>currentUser = Some operator, currentView = Radar, location = Some origin,
      isScanning = False, capsules = [], nearbyCapsules = [],
      statusMessage = ''GPS LOCKED. SYSTEM ONLINE.''\<rparr>"

text \<open>A state without a fix, holding one capsule that lies at \<open>(0, 0)\<close>.\<close>

definition noFix :: app_state where
  "noFix =
     \<lparr>currentUser = Some operator, currentView = Radar, location = None,
      isScanning = False, capsules = [capHere1], nearbyCapsules = [],
      statusMessage = ''SYSTEM INITIALIZING...''\<rparr>"

section \<open>Properties\<close>

subsection \<open>Auxiliary facts\<close>

lemma elemAt_in: "i < length xs \<Longrightarrow> elemAt xs i = Some (xs ! i)"
  by (simp add: elemAt_def)

lemma foldedTips_in:
  "\<forall>i \<in> set is. i < length f \<Longrightarrow>
   foldedTips f w p is n =
     Some (n + length (filter (\<lambda>i. distToWrist (f ! i) w < p * (16 / 10)) is))"
  by (induction "is" arbitrary: n) (simp_all add: elemAt_in)

lemma foldedFingers_wf:
  assumes "20 < length f"
  shows "foldedFingers f =
     Some (length (filter (\<lambda>i. distToWrist (f ! i) (f ! 0) < palmSize (f ! 0) (f ! 9) * (16 / 10))
                     [8, 12, 16, 20])
           + (if distToWrist (f ! 4) (f ! 0) < palmSize (f ! 0) (f ! 9) * (13 / 10) then 1 else 0))"
proof -
  have t: "\<forall>i \<in> set tips. i < length f"
    using assms by (simp add: tips_def)
  have e: "elemAt f 0 = Some (f ! 0)" "elemAt f 9 = Some (f ! 9)" "elemAt f 4 = Some (f ! 4)"
    using assms by (auto simp: elemAt_def)
  show ?thesis
    unfolding foldedFingers_def e option.case foldedTips_in[OF t]
    by (simp add: tips_def)
qed

lemma foldedFingers_short: "length f \<le> 9 \<Longrightarrow> foldedFingers f = None"
  by (simp add: foldedFingers_def elemAt_def split: option.splits)

lemma newState_cases:
  "(newState n = CLOSED \<longleftrightarrow> 4 \<le> n) \<and> (newState n = OPEN \<longleftrightarrow> n \<le> 1)
   \<and> (newState n = NONE \<longleftrightarrow> n = 2 \<or> n = 3)"
  by (auto simp: newState_def)

lemma sqrt_val: "0 \<le> r \<Longrightarrow> r * r = a \<Longrightarrow> sqrt a = (r::real)"
  by (metis real_sqrt_abs2 abs_of_nonneg)

lemma dist_knuckle: "distToWrist knucklePt wristPt = 5 / 100"
  unfolding distToWrist_def knucklePt_def wristPt_def
  by (rule sqrt_val) (simp_all add: power2_eq_square)

lemma dist_tip: "distToWrist tipPt wristPt = 10 / 100"
  unfolding distToWrist_def tipPt_def wristPt_def
  by (rule sqrt_val) (simp_all add: power2_eq_square)

lemma dist_self: "distToWrist p p = 0"
  by (simp add: distToWrist_def)

lemma spec_dist_knuckle: "spec_euclideanDistance wristPt knucklePt = 13 / 100"
  unfolding spec_euclideanDistance_def knucklePt_def wristPt_def
  by (rule sqrt_val) (simp_all add: power2_eq_square)

lemma spec_dist_tip: "spec_euclideanDistance tipPt wristPt = 10 / 100"
  unfolding spec_euclideanDistance_def tipPt_def wristPt_def
  by (rule sqrt_val) (simp_all add: power2_eq_square)

lemma below_ten:
  "d < 10 \<Longrightarrow> d = 0 \<or> d = 1 \<or> d = 2 \<or> d = 3 \<or> d = 4 \<or> d = 5 \<or> d = 6 \<or> d = 7 \<or> d = 8 \<or> d = (9::nat)"
  by arith

lemma digitOf_digitChar: "d < 10 \<Longrightarrow> digitOf (digitChar d) = d"
  by (drule below_ten) (auto simp: digitOf_def digitChar_def)

lemma digitChar_is_digit: "d < 10 \<Longrightarrow> digitChar d \<in> set ''0123456789''"
  by (drule below_ten) (auto simp: digitChar_def)

lemma digitChar_zero: "d < 10 \<Longrightarrow> digitChar d = CHR ''0'' \<longleftrightarrow> d = 0"
  by (drule below_ten) (auto simp: digitChar_def)

lemma decimalValue_snoc: "decimalValue (ds @ [c]) = 10 * decimalValue ds + digitOf c"
  by (simp add: decimalValue_def)

lemma toString_nonempty: "toString n \<noteq> []"
  by (subst toString.simps) simp

lemma decimalValue_toString: "decimalValue (toString n) = n"
proof (induction n rule: toString.induct)
  case (1 n)
  show ?case
  proof (cases "n < 10")
    case True
    then show ?thesis
      by (subst toString.simps) (simp add: decimalValue_def digitOf_digitChar)
  next
    case False
    with 1 have "decimalValue (toString (n div 10)) = n div 10"
      by simp
    with False show ?thesis
      by (subst toString.simps) (simp add: decimalValue_snoc digitOf_digitChar)
  qed
qed

lemma toString_digits: "c \<in> set (toString n) \<Longrightarrow> c \<in> set ''0123456789''"
proof (induction n rule: toString.induct)
  case (1 n)
  show ?case
  proof (cases "n < 10")
    case True
    with 1(2) have "c = digitChar n"
      by (subst (asm) toString.simps) simp
    with True show ?thesis
      using digitChar_is_digit by blast
  next
    case False
    with 1(2) have "c \<in> set (toString (n div 10)) \<or> c = digitChar (n mod 10)"
      by (subst (asm) toString.simps) auto
    then show ?thesis
    proof
      assume "c \<in> set (toString (n div 10))"
      with 1(1)[OF False] show ?thesis by blast
    next
      assume "c = digitChar (n mod 10)"
      then show ?thesis
        using digitChar_is_digit[of "n mod 10"] by simp
    qed
  qed
qed

lemma toString_leading: "hd (toString n) = CHR ''0'' \<longleftrightarrow> n = 0"
proof (induction n rule: toString.induct)
  case (1 n)
  show ?case
  proof (cases "n < 10")
    case True
    then show ?thesis
      by (subst toString.simps) (simp add: digitChar_zero)
  next
    case False
    have "hd (toString n) = hd (toString (n div 10))"
      using False toString_nonempty[of "n div 10"]
      by (subst toString.simps) simp
    with 1[OF False] False show ?thesis
      by simp
  qed
qed

lemma hd_insort_key:
  "hd (insort_key k a ys) = (if ys = [] \<or> k a \<le> k (hd ys) then a else hd ys)"
  by (cases ys) simp_all

lemma sort_key_eq_Nil: "sort_key k xs = [] \<longleftrightarrow> xs = []"
  by (metis length_sort list.size(3) length_0_conv)

lemma hd_sort_key_first_min:
  fixes k :: "'a \<Rightarrow> real"
  assumes "xs \<noteq> []"
  shows "\<exists>i < length xs. hd (sort_key k xs) = xs ! i
           \<and> (\<forall>j < length xs. k (xs ! i) \<le> k (xs ! j))
           \<and> (\<forall>j < i. k (xs ! i) < k (xs ! j))"
  using assms
proof (induction xs)
  case Nil
  then show ?case by simp
next
  case (Cons a xs)
  show ?case
  proof (cases "xs = []")
    case True
    then show ?thesis by simp
  next
    case False
    from Cons.IH[OF False] obtain i where i: "i < length xs" "hd (sort_key k xs) = xs ! i"
      "\<forall>j < length xs. k (xs ! i) \<le> k (xs ! j)" "\<forall>j < i. k (xs ! i) < k (xs ! j)"
      by blast
    have ne: "sort_key k xs \<noteq> []"
      using False by (simp add: sort_key_eq_Nil)
    have h: "hd (sort_key k (a # xs)) = (if k a \<le> k (xs ! i) then a else xs ! i)"
      using ne i(2) by (simp add: hd_insort_key)
    show ?thesis
    proof (cases "k a \<le> k (xs ! i)")
      case True
      have "\<forall>j < length (a # xs). k ((a # xs) ! 0) \<le> k ((a # xs) ! j)"
      proof (intro allI impI)
        fix j assume "j < length (a # xs)"
        then show "k ((a # xs) ! 0) \<le> k ((a # xs) ! j)"
          using True i(3) by (cases j) (auto intro: order_trans)
      qed
      with h True show ?thesis
        by (intro exI[of _ 0]) simp
    next
      case nle: False
      have m: "\<forall>j < length (a # xs). k ((a # xs) ! Suc i) \<le> k ((a # xs) ! j)"
      proof (intro allI impI)
        fix j assume "j < length (a # xs)"
        then show "k ((a # xs) ! Suc i) \<le> k ((a # xs) ! j)"
          using nle i(3) by (cases j) auto
      qed
      have s: "\<forall>j < Suc i. k ((a # xs) ! Suc i) < k ((a # xs) ! j)"
      proof (intro allI impI)
        fix j assume "j < Suc i"
        then show "k ((a # xs) ! Suc i) < k ((a # xs) ! j)"
          using nle i(4) by (cases j) auto
      qed
      from h nle m s i(1) show ?thesis
        by (intro exI[of _ "Suc i"]) simp
    qed
  qed
qed


lemma calculateDistance_self: "calculateDistance a a = 0"
  by (simp add: calculateDistance_def)

lemma calculateDistance_northOf:
  assumes "0 \<le> m" "m \<le> 6371000"
  shows "calculateDistance origin (northOf m) = m"
proof -
  let ?t = "m / 12742000"
  have t0: "0 \<le> ?t" using assms by simp
  have t1: "?t \<le> 1 / 2" using assms by simp
  have half: "(1::real) / 2 \<le> pi / 2" using pi_ge_two by simp
  have tpi: "?t \<le> pi / 2" using t1 half by linarith
  have s0: "0 \<le> sin ?t"
    using t0 tpi pi_ge_two by (intro sin_ge_zero) linarith+
  have arg: "m * 180 / (6371000 * pi) * pi / 180 / 2 = ?t"
    by simp
  have "calculateDistance origin (northOf m) = 6371000 * (2 * arcsin (sqrt ((sin ?t)\<^sup>2)))"
    by (simp add: calculateDistance_def origin_def northOf_def Let_def)
  also have "sqrt ((sin ?t)\<^sup>2) = sin ?t"
    using s0 by simp
  also have "arcsin (sin ?t) = ?t"
    using t0 tpi by (intro arcsin_sin) linarith+
  finally show ?thesis by simp
qed

lemma dist_cap10: "calculateDistance origin (coordinates cap10) = 10"
  by (simp add: cap10_def capsuleAt_def calculateDistance_northOf)

lemma dist_cap30: "calculateDistance origin (coordinates cap30) = 30"
  by (simp add: cap30_def capsuleAt_def calculateDistance_northOf)

lemma dist_cap49: "calculateDistance origin (coordinates cap49) = 49"
  by (simp add: cap49_def capsuleAt_def calculateDistance_northOf)

lemma dist_cap50: "calculateDistance origin (coordinates cap50) = 50"
  by (simp add: cap50_def capsuleAt_def calculateDistance_northOf)



lemma dist_capHere1: "calculateDistance origin (coordinates capHere1) = 0"
  by (simp add: capHere1_def capsuleAt_def calculateDistance_self)

lemma dist_capHere2: "calculateDistance origin (coordinates capHere2) = 0"
  by (simp add: capHere2_def capsuleAt_def calculateDistance_self)

subsection \<open>The gesture classifier\<close>

text \<open>
  C1, as amended. For every frame of 21 landmarks, \<^verbatim>\<open>detectGesture\<close> takes
  \<^verbatim>\<open>palmSize\<close> to be the distance in the image plane (the \<open>x\<close> and \<open>y\<close>
  components only, the depth \<open>z\<close> is not read) from the wrist (index 0) to the
  middle-finger base knuckle (index 9); it counts a fingertip at index 8, 12, 16 or 20 as
  folded exactly when its image-plane distance to the wrist is below
  \<open>palmSize * 1.6\<close>, and the thumb tip (index 4) exactly when that distance is below
  \<open>palmSize * 1.3\<close>; the frame is classified \<open>CLOSED\<close> exactly when the count is at
  least 4, \<open>OPEN\<close> exactly when it is at most 1, and ambiguous (\<open>NONE\<close> as
  \<^verbatim>\<open>newState\<close>) exactly when it is 2 or 3.
\<close>

theorem detectGesture_planar_classification:
  assumes "length f = 21"
  shows "palmSize (f ! 0) (f ! 9)
           = sqrt ((lm_x (f ! 9) - lm_x (f ! 0))\<^sup>2 + (lm_y (f ! 9) - lm_y (f ! 0))\<^sup>2)
       \<and> distToWrist p (f ! 0) = sqrt ((lm_x p - lm_x (f ! 0))\<^sup>2 + (lm_y p - lm_y (f ! 0))\<^sup>2)
       \<and> (\<exists>n. foldedFingers f = Some n
            \<and> n = length (filter (\<lambda>i. distToWrist (f ! i) (f ! 0) < palmSize (f ! 0) (f ! 9) * (16 / 10))
                            [8, 12, 16, 20])
                  + (if distToWrist (f ! 4) (f ! 0) < palmSize (f ! 0) (f ! 9) * (13 / 10)
                     then 1 else 0)
            \<and> (newState n = CLOSED \<longleftrightarrow> 4 \<le> n)
            \<and> (newState n = OPEN \<longleftrightarrow> n \<le> 1)
            \<and> (newState n = NONE \<longleftrightarrow> n = 2 \<or> n = 3))"
proof -
  have l: "20 < length f"
    using assms by simp
  have a: "palmSize (f ! 0) (f ! 9)
             = sqrt ((lm_x (f ! 9) - lm_x (f ! 0))\<^sup>2 + (lm_y (f ! 9) - lm_y (f ! 0))\<^sup>2)"
    by (simp add: palmSize_def distToWrist_def)
  have b: "distToWrist p (f ! 0) = sqrt ((lm_x p - lm_x (f ! 0))\<^sup>2 + (lm_y p - lm_y (f ! 0))\<^sup>2)"
    by (simp add: distToWrist_def)
  from a b foldedFingers_wf[OF l] newState_cases show ?thesis
    by blast
qed

theorem detectGesture_planar_classification_witness:
  "length fistFrame = 21 \<and> foldedFingers fistFrame = Some 5 \<and> newState 5 = CLOSED"
proof -
  have l: "length fistFrame = 21"
    by (simp add: fistFrame_def)
  from detectGesture_planar_classification[OF l, of wristPt]
  obtain n where n: "foldedFingers fistFrame = Some n"
    "n = length (filter (\<lambda>i. distToWrist (fistFrame ! i) (fistFrame ! 0)
                              < palmSize (fistFrame ! 0) (fistFrame ! 9) * (16 / 10))
                   [8, 12, 16, 20])
         + (if distToWrist (fistFrame ! 4) (fistFrame ! 0)
               < palmSize (fistFrame ! 0) (fistFrame ! 9) * (13 / 10)
            then 1 else 0)"
    "newState n = CLOSED \<longleftrightarrow> 4 \<le> n"
    by blast
  have "n = 5"
    unfolding n(2) by (simp add: fistFrame_def palmSize_def dist_knuckle dist_self)
  with n l show ?thesis
    by simp
qed

text \<open>
  The claim as stated fails on \<open>depthFrame\<close>, a frame of 21 landmarks in which the
  knuckle is away from the wrist in depth. With the euclidean distance of the 3D points
  the palm measures 0.13 and all five tips (at distance 0.10) count as folded, which the
  claim classifies \<open>CLOSED\<close>; the code measures the palm as 0.05, counts no folded
  finger and classifies \<open>OPEN\<close>.
\<close>

theorem detectGesture_depth_counterexample:
  "length depthFrame = 21
   \<and> palmSize (depthFrame ! 0) (depthFrame ! 9) = 5 / 100
   \<and> spec_euclideanDistance (depthFrame ! 0) (depthFrame ! 9) = 13 / 100
   \<and> foldedFingers depthFrame = Some 0 \<and> newState 0 = OPEN
   \<and> spec_foldedCount depthFrame = 5 \<and> newState 5 = CLOSED"
proof -
  have l: "20 < length depthFrame"
    by (simp add: depthFrame_def)
  have a: "foldedFingers depthFrame = Some 0"
    unfolding foldedFingers_wf[OF l]
    by (simp add: depthFrame_def palmSize_def dist_knuckle dist_tip)
  have b: "spec_foldedCount depthFrame = 5"
    by (simp add: spec_foldedCount_def depthFrame_def Let_def spec_dist_knuckle spec_dist_tip)
  show ?thesis
    using a b
    by (simp add: depthFrame_def newState_def palmSize_def dist_knuckle spec_dist_knuckle)
qed

text \<open>
  C2. Here \<open>hg\<close> is the value of \<^verbatim>\<open>handGesture\<close> in the closure of the
  \<^verbatim>\<open>detectGesture\<close> that the callback calls, and \<open>s\<close> is the confirmed state at
  the time of the call. The callback is registered by an effect that depends on
  \<^verbatim>\<open>streamActive\<close> only, so \<open>hg\<close> is the state of the render that registered it
  (the initial \<open>NONE\<close>) and need not be \<open>s\<close>. For every frame of 21 landmarks,
  every \<open>hg\<close> and every \<open>s\<close>: the callback does not throw and the state after it is
  the state before it, replaced by the setter's argument if a setter was called; when the
  frame is ambiguous (2 or 3 folded fingers) no setter is called and the state stays
  \<open>s\<close>; the state changes only on a definitive classification that differs from
  \<open>s\<close>, and then to that classification; on a definitive classification the setter is
  called exactly when the classification differs from \<open>hg\<close>. With \<open>hg = NONE\<close> the
  setter is called with every definitive classification, and the state after the call is
  the classification if the frame is definitive and \<open>s\<close> if it is ambiguous.
\<close>

theorem detectGesture_hysteresis:
  assumes "length f = 21"
  shows "\<exists>n r. foldedFingers f = Some n \<and> detectGesture hg f = Inr r
           \<and> fst (onResults True sa hg (Some [f]) st) = None
           \<and> handGesture (snd (onResults True sa hg (Some [f]) st))
               = gestureAfter (handGesture st) r
           \<and> (n = 2 \<or> n = 3 \<longrightarrow> r = None \<and> gestureAfter s r = s)
           \<and> (gestureAfter s r \<noteq> s \<longrightarrow>
                \<not> (n = 2 \<or> n = 3) \<and> newState n \<noteq> NONE \<and> newState n \<noteq> s
                \<and> gestureAfter s r = newState n)
           \<and> (\<not> (n = 2 \<or> n = 3) \<longrightarrow>
                newState n \<noteq> NONE
                \<and> r = (if newState n = hg then None else Some (newState n)))
           \<and> (hg = NONE \<longrightarrow>
                r = (if n = 2 \<or> n = 3 then None else Some (newState n))
                \<and> gestureAfter s r = (if n = 2 \<or> n = 3 then s else newState n))"
proof -
  have l: "20 < length f"
    using assms by simp
  from foldedFingers_wf[OF l] obtain n where n: "foldedFingers f = Some n"
    by blast
  let ?r = "if newState n \<noteq> NONE \<and> newState n \<noteq> hg then Some (newState n) else None"
  have d: "detectGesture hg f = Inr ?r"
    by (simp add: detectGesture_def n)
  have amb: "n = 2 \<or> n = 3 \<Longrightarrow> newState n = NONE"
    using newState_cases[of n] by blast
  have def: "\<not> (n = 2 \<or> n = 3) \<Longrightarrow> newState n \<noteq> NONE"
    using newState_cases[of n] by blast
  have o1: "fst (onResults True sa hg (Some [f]) st) = None"
    by (simp add: onResults_def d)
  have o2: "handGesture (snd (onResults True sa hg (Some [f]) st)) = gestureAfter (handGesture st) ?r"
    by (simp add: onResults_def d)
  have c1: "n = 2 \<or> n = 3 \<longrightarrow> ?r = None \<and> gestureAfter s ?r = s"
    using amb by (simp add: gestureAfter_def)
  have c2: "gestureAfter s ?r \<noteq> s \<longrightarrow>
              \<not> (n = 2 \<or> n = 3) \<and> newState n \<noteq> NONE \<and> newState n \<noteq> s
              \<and> gestureAfter s ?r = newState n"
    using amb by (auto simp: gestureAfter_def split: if_splits)
  have c3: "\<not> (n = 2 \<or> n = 3) \<longrightarrow>
              newState n \<noteq> NONE \<and> ?r = (if newState n = hg then None else Some (newState n))"
    using def by simp
  have c4: "hg = NONE \<longrightarrow>
              ?r = (if n = 2 \<or> n = 3 then None else Some (newState n))
              \<and> gestureAfter s ?r = (if n = 2 \<or> n = 3 then s else newState n)"
    using amb def by (auto simp: gestureAfter_def)
  from n d o1 o2 c1 c2 c3 c4 show ?thesis
    by blast
qed

theorem detectGesture_hysteresis_witness:
  "length halfFrame = 21 \<and> foldedFingers halfFrame = Some 2
   \<and> detectGesture NONE halfFrame = Inr None \<and> gestureAfter OPEN None = OPEN
   \<and> handGesture openState = OPEN
   \<and> handGesture (snd (onResults True True NONE (Some [halfFrame]) openState)) = OPEN
   \<and> length fistFrame = 21 \<and> foldedFingers fistFrame = Some 5
   \<and> detectGesture NONE fistFrame = Inr (Some CLOSED)
   \<and> gestureAfter OPEN (Some CLOSED) = CLOSED
   \<and> gestureAfter CLOSED (Some CLOSED) = CLOSED
   \<and> handGesture (snd (onResults True True NONE (Some [fistFrame]) openState)) = CLOSED"
proof -
  have l: "length halfFrame = 21"
    by (simp add: halfFrame_def)
  have l': "20 < length halfFrame"
    using l by simp
  have f: "foldedFingers halfFrame = Some 2"
    unfolding foldedFingers_wf[OF l']
    by (simp add: halfFrame_def palmSize_def dist_knuckle dist_tip dist_self)
  have o: "handGesture openState = OPEN"
    by (simp add: openState_def)
  from detectGesture_hysteresis[OF l, of NONE True openState OPEN] f o
  have a: "detectGesture NONE halfFrame = Inr None \<and> gestureAfter OPEN None = OPEN
           \<and> handGesture (snd (onResults True True NONE (Some [halfFrame]) openState)) = OPEN"
    by auto
  have m: "length fistFrame = 21"
    by (simp add: fistFrame_def)
  have m': "20 < length fistFrame"
    using m by simp
  have g: "foldedFingers fistFrame = Some 5"
    unfolding foldedFingers_wf[OF m']
    by (simp add: fistFrame_def palmSize_def dist_knuckle dist_self)
  have c: "newState 5 = CLOSED"
    by (simp add: newState_def)
  from detectGesture_hysteresis[OF m, of NONE True openState OPEN] g c o
  have b: "detectGesture NONE fistFrame = Inr (Some CLOSED)
           \<and> gestureAfter OPEN (Some CLOSED) = CLOSED
           \<and> handGesture (snd (onResults True True NONE (Some [fistFrame]) openState)) = CLOSED"
    by auto
  from detectGesture_hysteresis[OF m, of NONE True openState CLOSED] g c
  have d: "gestureAfter CLOSED (Some CLOSED) = CLOSED"
    by auto
  from l f a o m g b d show ?thesis
    by blast
qed

text \<open>
  C3, as amended. When the hand canvas and its context exist and the results carry no
  hand (\<^verbatim>\<open>multiHandLandmarks\<close> absent or empty), then for every prior state and
  every closure value the callback does not throw, and \<^verbatim>\<open>handGesture\<close> is
  \<open>NONE\<close> and \<^verbatim>\<open>handDetected\<close> is false after that same call. The code has no
  check of the landmark count, and a frame of another length is not handled as "no
  hand".
\<close>

theorem onResults_no_hand_resets:
  "fst (onResults True sa hg None st) = None
   \<and> handGesture (snd (onResults True sa hg None st)) = NONE
   \<and> handDetected (snd (onResults True sa hg None st)) = False
   \<and> fst (onResults True sa hg (Some []) st) = None
   \<and> handGesture (snd (onResults True sa hg (Some []) st)) = NONE
   \<and> handDetected (snd (onResults True sa hg (Some []) st)) = False"
  by (simp add: onResults_def)

theorem onResults_no_hand_resets_witness:
  "fst (onResults True True OPEN None openState) = None
   \<and> handGesture openState = OPEN
   \<and> handGesture (snd (onResults True True OPEN None openState)) = NONE"
  using onResults_no_hand_resets[of True OPEN openState]
  by (simp add: openState_def)

text \<open>
  The claim as stated fails on a malformed frame: with the confirmed state \<open>OPEN\<close> and
  a single hand of five landmarks, reading \<^verbatim>\<open>landmarks[9].x\<close> throws a
  \<^verbatim>\<open>TypeError\<close> out of the callback, and \<^verbatim>\<open>handGesture\<close> is still \<open>OPEN\<close>.
\<close>

theorem onResults_short_frame_counterexample:
  "length shortFrame = 5
   \<and> handGesture openState = OPEN
   \<and> fst (onResults True True OPEN (Some [shortFrame]) openState) = Some TypeError
   \<and> handGesture (snd (onResults True True OPEN (Some [shortFrame]) openState)) = OPEN"
proof -
  have "foldedFingers shortFrame = None"
    by (rule foldedFingers_short) (simp add: shortFrame_def)
  then have "detectGesture OPEN shortFrame = Inl TypeError"
    by (simp add: detectGesture_def)
  then show ?thesis
    by (simp add: onResults_def openState_def shortFrame_def)
qed

subsection \<open>Selection by gesture\<close>

text \<open>
  C4. When the gesture is \<open>OPEN\<close>, nothing is selected and the capsule list of the AR
  view (the nearby capsules) is not empty, the interaction effect selects a capsule of
  minimum distance from the user location, and among capsules at that minimum distance
  the one that comes first in the list: every capsule before the selected one is strictly
  farther away.
\<close>

theorem open_hand_selects_nearest_first:
  assumes "caps \<noteq> []"
  shows "\<exists>i < length caps.
           interactionEffect cd OPEN caps loc None = Some (caps ! i)
           \<and> (\<forall>j < length caps.
                 cd loc (coordinates (caps ! i)) \<le> cd loc (coordinates (caps ! j)))
           \<and> (\<forall>j < i. cd loc (coordinates (caps ! i)) < cd loc (coordinates (caps ! j)))"
proof -
  from hd_sort_key_first_min[OF assms, of "\<lambda>c. cd loc (coordinates c)"]
  obtain i where i: "i < length caps"
    "hd (sort_key (\<lambda>c. cd loc (coordinates c)) caps) = caps ! i"
    "\<forall>j < length caps. cd loc (coordinates (caps ! i)) \<le> cd loc (coordinates (caps ! j))"
    "\<forall>j < i. cd loc (coordinates (caps ! i)) < cd loc (coordinates (caps ! j))"
    by blast
  have "interactionEffect cd OPEN caps loc None = Some (caps ! i)"
    using assms i(2) by (simp add: interactionEffect_def)
  with i show ?thesis
    by blast
qed

theorem open_hand_selects_nearest_first_witness:
  "[cap30, cap10] \<noteq> []
   \<and> interactionEffect calculateDistance OPEN [cap30, cap10] origin None = Some cap10
   \<and> interactionEffect calculateDistance OPEN [capHere1, capHere2] origin None = Some capHere1"
proof -
  let ?d = "\<lambda>c. calculateDistance origin (coordinates c)"
  have ne1: "[cap30, cap10] \<noteq> []" by simp
  have ne2: "[capHere1, capHere2] \<noteq> []" by simp
  from open_hand_selects_nearest_first[OF ne1, of calculateDistance origin]
  obtain i where i: "i < length [cap30, cap10]"
    "interactionEffect calculateDistance OPEN [cap30, cap10] origin None = Some ([cap30, cap10] ! i)"
    "\<forall>j < length [cap30, cap10]. ?d ([cap30, cap10] ! i) \<le> ?d ([cap30, cap10] ! j)"
    by blast
  have "i \<noteq> 0"
  proof
    assume "i = 0"
    with i(3)[rule_format, of 1] show False
      by (simp add: dist_cap10 dist_cap30)
  qed
  with i(1) have "i = 1" by simp
  with i(2) have a: "interactionEffect calculateDistance OPEN [cap30, cap10] origin None = Some cap10"
    by simp
  from open_hand_selects_nearest_first[OF ne2, of calculateDistance origin]
  obtain k where k: "k < length [capHere1, capHere2]"
    "interactionEffect calculateDistance OPEN [capHere1, capHere2] origin None
       = Some ([capHere1, capHere2] ! k)"
    "\<forall>j < k. ?d ([capHere1, capHere2] ! k) < ?d ([capHere1, capHere2] ! j)"
    by blast
  have "k \<noteq> 1"
  proof
    assume "k = 1"
    with k(3)[rule_format, of 0] show False
      by (simp add: dist_capHere1 dist_capHere2)
  qed
  with k(1) have "k = 0" by simp
  with k(2) have b: "interactionEffect calculateDistance OPEN [capHere1, capHere2] origin None = Some capHere1"
    by simp
  from a b show ?thesis by simp
qed

subsection \<open>The scan workflow\<close>

text \<open>
  C5. A scan trigger sets \<^verbatim>\<open>isScanning\<close>. When the timer fires, whatever happened
  in between, \<^verbatim>\<open>isScanning\<close> is false again (the scanner is idle) and the callback
  branches on the nearby capsules of the trigger. If there are any, the status message is
  a decimal numeral followed by \<open>SIGNALS DETECTED. ENGAGING HUD.\<close>, where the numeral
  consists of digits only, has no leading zero and denotes the number of nearby capsules,
  and the view becomes the AR view. If there are none, the status message reports no
  traces and the callback leaves the view as it finds it (with no event in between, the
  view of the trigger).
\<close>

theorem scan_outcome_branches:
  "isScanning (fst (handleScan st))
   \<and> \<not> isScanning (scanRun cd st evs)
   \<and> (nearbyCapsules st \<noteq> [] \<longrightarrow>
        (\<exists>ds. statusMessage (scanRun cd st evs) = ds @ '' SIGNALS DETECTED. ENGAGING HUD.''
              \<and> ds = toString (length (nearbyCapsules st))
              \<and> decimalValue ds = length (nearbyCapsules st)
              \<and> (\<forall>c \<in> set ds. c \<in> set ''0123456789'')
              \<and> ds \<noteq> [] \<and> hd ds \<noteq> CHR ''0'')
        \<and> currentView (scanRun cd st evs) = ArView)
   \<and> (nearbyCapsules st = [] \<longrightarrow>
        statusMessage (scanRun cd st evs) = ''NO TRACES FOUND IN SECTOR.''
        \<and> currentView (scanRun cd st evs) = currentView (beforeTimeout cd st evs)
        \<and> currentView (scanRun cd st []) = currentView st)"
proof -
  let ?k = "length (nearbyCapsules st)"
  have pin: "nearbyCapsules st \<noteq> [] \<Longrightarrow>
               decimalValue (toString ?k) = ?k
               \<and> (\<forall>c \<in> set (toString ?k). c \<in> set ''0123456789'')
               \<and> toString ?k \<noteq> [] \<and> hd (toString ?k) \<noteq> CHR ''0''"
    using decimalValue_toString[of ?k] toString_digits[of _ ?k] toString_nonempty[of ?k]
          toString_leading[of ?k]
    by blast
  have a: "isScanning (fst (handleScan st))" "\<not> isScanning (scanRun cd st evs)"
    by (simp_all add: scanRun_def scanTimeout_def handleScan_def)
  have b: "nearbyCapsules st \<noteq> [] \<Longrightarrow>
             statusMessage (scanRun cd st evs) = toString ?k @ '' SIGNALS DETECTED. ENGAGING HUD.''
             \<and> currentView (scanRun cd st evs) = ArView"
    by (simp add: scanRun_def scanTimeout_def handleScan_def)
  have c: "nearbyCapsules st = [] \<Longrightarrow>
             statusMessage (scanRun cd st evs) = ''NO TRACES FOUND IN SECTOR.''
             \<and> currentView (scanRun cd st evs) = currentView (beforeTimeout cd st evs)
             \<and> currentView (scanRun cd st []) = currentView st"
    by (simp add: scanRun_def scanTimeout_def handleScan_def beforeTimeout_def appRun_def)
  from a b c pin show ?thesis
    by blast
qed

theorem scan_outcome_branches_witness:
  "nearbyCapsules threeNearby \<noteq> []
   \<and> \<not> isScanning (scanRun calculateDistance threeNearby [SetCurrentView ViewCapsule])
   \<and> statusMessage (scanRun calculateDistance threeNearby [SetCurrentView ViewCapsule])
       = ''3 SIGNALS DETECTED. ENGAGING HUD.''
   \<and> currentView (scanRun calculateDistance threeNearby [SetCurrentView ViewCapsule]) = ArView
   \<and> length (nearbyCapsules (threeNearby\<lparr>nearbyCapsules := replicate 12 capHere1\<rparr>)) = 12
   \<and> statusMessage
        (scanRun calculateDistance (threeNearby\<lparr>nearbyCapsules := replicate 12 capHere1\<rparr>) [])
       = ''12 SIGNALS DETECTED. ENGAGING HUD.''
   \<and> nearbyCapsules noneNearby = []
   \<and> statusMessage (scanRun calculateDistance noneNearby []) = ''NO TRACES FOUND IN SECTOR.''
   \<and> currentView (scanRun calculateDistance noneNearby []) = Radar"
proof -
  let ?r3 = "scanRun calculateDistance threeNearby [SetCurrentView ViewCapsule]"
  let ?st12 = "threeNearby\<lparr>nearbyCapsules := replicate 12 capHere1\<rparr>"
  let ?r12 = "scanRun calculateDistance ?st12 []"
  let ?r0 = "scanRun calculateDistance noneNearby []"
  have n3: "nearbyCapsules threeNearby \<noteq> []"
    by (simp add: threeNearby_def)
  have len: "length (nearbyCapsules threeNearby) = 3"
    by (simp add: threeNearby_def)
  have n12: "nearbyCapsules ?st12 \<noteq> []"
    by simp
  have len12: "length (nearbyCapsules ?st12) = 12"
    by simp
  have n0: "nearbyCapsules noneNearby = []"
    by (simp add: noneNearby_def)
  have v0: "currentView noneNearby = Radar"
    by (simp add: noneNearby_def)
  have t3: "toString 3 @ '' SIGNALS DETECTED. ENGAGING HUD.'' = ''3 SIGNALS DETECTED. ENGAGING HUD.''"
    by (simp add: toString.simps digitChar_def)
  have t12: "toString 12 @ '' SIGNALS DETECTED. ENGAGING HUD.'' = ''12 SIGNALS DETECTED. ENGAGING HUD.''"
    by (simp add: toString.simps digitChar_def)
  note w3 = scan_outcome_branches[of threeNearby calculateDistance "[SetCurrentView ViewCapsule]"]
  note w12 = scan_outcome_branches[of ?st12 calculateDistance "[]"]
  note w0 = scan_outcome_branches[of noneNearby calculateDistance "[]"]
  have a: "\<not> isScanning ?r3"
    using w3 by blast
  have b: "statusMessage ?r3 = toString (length (nearbyCapsules threeNearby)) @ '' SIGNALS DETECTED. ENGAGING HUD.''"
    using w3 n3 by blast
  have c: "currentView ?r3 = ArView"
    using w3 n3 by blast
  have b12: "statusMessage ?r12 = toString (length (nearbyCapsules ?st12)) @ '' SIGNALS DETECTED. ENGAGING HUD.''"
    using w12 n12 by blast
  have d: "statusMessage ?r0 = ''NO TRACES FOUND IN SECTOR.''"
    using w0 n0 by blast
  have e: "currentView ?r0 = currentView noneNearby"
    using w0 n0 by blast
  have b': "statusMessage ?r3 = ''3 SIGNALS DETECTED. ENGAGING HUD.''"
    using b unfolding len t3 .
  have b12': "statusMessage ?r12 = ''12 SIGNALS DETECTED. ENGAGING HUD.''"
    using b12 unfolding len12 t12 .
  have e': "currentView ?r0 = Radar"
    using e unfolding v0 .
  from n3 a b' c len12 b12' n0 d e' show ?thesis
    by (intro conjI)
qed

text \<open>
  C10. For two scans whose nearby capsules at the trigger are equal, whatever the events
  of the two latency windows (positions, capsule list changes, navigation), the status
  message after the timer is the same, and the view change is the same: either both
  callbacks switch to the AR view or both leave the view they find.
\<close>

theorem scan_outcome_fixed_at_trigger:
  assumes "nearbyCapsules st1 = nearbyCapsules st2"
  shows "statusMessage (scanRun cd1 st1 evs1) = statusMessage (scanRun cd2 st2 evs2)
       \<and> isScanning (scanRun cd1 st1 evs1) = isScanning (scanRun cd2 st2 evs2)
       \<and> ((nearbyCapsules st1 \<noteq> []
              \<and> currentView (scanRun cd1 st1 evs1) = ArView
              \<and> currentView (scanRun cd2 st2 evs2) = ArView)
           \<or> (nearbyCapsules st1 = []
              \<and> currentView (scanRun cd1 st1 evs1) = currentView (beforeTimeout cd1 st1 evs1)
              \<and> currentView (scanRun cd2 st2 evs2) = currentView (beforeTimeout cd2 st2 evs2)))"
  using assms by (simp add: scanRun_def scanTimeout_def handleScan_def)

theorem scan_outcome_fixed_at_trigger_witness:
  "nearbyCapsules threeNearby = nearbyCapsules (threeNearby\<lparr>capsules := [], location := None\<rparr>)
   \<and> nearbyCapsules (beforeTimeout calculateDistance threeNearby [CapsulesLoaded [], GpsError]) = []
   \<and> statusMessage (scanRun calculateDistance threeNearby [CapsulesLoaded [], GpsError])
       = statusMessage
           (scanRun calculateDistance (threeNearby\<lparr>capsules := [], location := None\<rparr>)
              [SetCurrentView Profile])
   \<and> currentView (scanRun calculateDistance threeNearby [CapsulesLoaded [], GpsError]) = ArView
   \<and> currentView
        (scanRun calculateDistance (threeNearby\<lparr>capsules := [], location := None\<rparr>)
           [SetCurrentView Profile]) = ArView
   \<and> nearbyCapsules noneNearby = nearbyCapsules noFix
   \<and> nearbyCapsules (beforeTimeout calculateDistance noFix [GpsPosition origin]) = [capHere1]
   \<and> statusMessage (scanRun calculateDistance noneNearby [])
       = statusMessage (scanRun calculateDistance noFix [GpsPosition origin])
   \<and> currentView (scanRun calculateDistance noFix [GpsPosition origin]) = Radar"
proof -
  let ?st2 = "threeNearby\<lparr>capsules := [], location := None\<rparr>"
  have e: "nearbyCapsules threeNearby = nearbyCapsules ?st2"
    by simp
  have n: "nearbyCapsules threeNearby \<noteq> []"
    by (simp add: threeNearby_def)
  have b: "nearbyCapsules (beforeTimeout calculateDistance threeNearby [CapsulesLoaded [], GpsError]) = []"
    by (simp add: beforeTimeout_def appRun_def handleScan_def nearbyEffect_def threeNearby_def)
  note w = scan_outcome_fixed_at_trigger[OF e, of calculateDistance "[CapsulesLoaded [], GpsError]"
         calculateDistance "[SetCurrentView Profile]"]
  have s: "statusMessage (scanRun calculateDistance threeNearby [CapsulesLoaded [], GpsError])
             = statusMessage (scanRun calculateDistance ?st2 [SetCurrentView Profile])"
    using w by blast
  have v: "currentView (scanRun calculateDistance threeNearby [CapsulesLoaded [], GpsError]) = ArView
           \<and> currentView (scanRun calculateDistance ?st2 [SetCurrentView Profile]) = ArView"
    using w n by blast
  have e0: "nearbyCapsules noneNearby = nearbyCapsules noFix"
    by (simp add: noneNearby_def noFix_def)
  have n0: "nearbyCapsules noneNearby = []"
    by (simp add: noneNearby_def)
  have b0: "nearbyCapsules (beforeTimeout calculateDistance noFix [GpsPosition origin]) = [capHere1]"
    using dist_capHere1
    by (simp add: beforeTimeout_def appRun_def handleScan_def nearbyEffect_def noFix_def)
  have v0: "currentView (beforeTimeout calculateDistance noFix [GpsPosition origin]) = Radar"
    by (simp add: beforeTimeout_def appRun_def handleScan_def nearbyEffect_def noFix_def)
  note w0 = scan_outcome_fixed_at_trigger[OF e0, of calculateDistance "[]"
         calculateDistance "[GpsPosition origin]"]
  have s0: "statusMessage (scanRun calculateDistance noneNearby [])
             = statusMessage (scanRun calculateDistance noFix [GpsPosition origin])"
    using w0 by blast
  have u0: "currentView (scanRun calculateDistance noFix [GpsPosition origin])
             = currentView (beforeTimeout calculateDistance noFix [GpsPosition origin])"
    using w0 n0 by blast
  show ?thesis
    using e b s v e0 b0 s0 u0 unfolding v0 by (intro conjI) blast+
qed

subsection \<open>Projection and proximity\<close>

text \<open>
  C6. For every capsule the projection is \<open>angle = (90 - bearing) * \<pi> / 180\<close>,
  \<open>visualDistance = clamp (distance / 5) 5 50\<close> and the position
  \<open>(cos angle * visualDistance, 0, - sin angle * visualDistance)\<close>, that is
  \<open>x\<close> and \<open>z\<close> on the ground plane \<open>y = 0\<close>; for every raw distance \<open>d\<close>, so in
  particular for every nonnegative one, the visual distance lies in \<open>[5, 50]\<close>.
\<close>

theorem capsule_projection:
  "angleRad (capsuleObject cd cb loc c) = (90 - cb loc (coordinates c)) * pi / 180
   \<and> visualDistance (capsuleObject cd cb loc c) = clamp (cd loc (coordinates c) / 5) 5 50
   \<and> position (capsuleObject cd cb loc c)
       = (cos (angleRad (capsuleObject cd cb loc c)) * visualDistance (capsuleObject cd cb loc c),
          0,
          - sin (angleRad (capsuleObject cd cb loc c)) * visualDistance (capsuleObject cd cb loc c))
   \<and> visualDistanceOf d = clamp (d / 5) 5 50
   \<and> 5 \<le> visualDistanceOf d \<and> visualDistanceOf d \<le> 50"
  by (simp add: capsuleObject_def Let_def visualDistanceOf_def clamp_def)

theorem capsule_projection_witness:
  "visualDistanceOf 10 = 5 \<and> visualDistanceOf 100 = 20 \<and> visualDistanceOf 1000 = 50
   \<and> visualDistance (capsuleObject calculateDistance (\<lambda>a b. 0) origin cap30) = 6"
  using capsule_projection[of calculateDistance "\<lambda>a b. 0" origin cap30 10]
        capsule_projection[of calculateDistance "\<lambda>a b. 0" origin cap30 100]
        capsule_projection[of calculateDistance "\<lambda>a b. 0" origin cap30 1000]
        dist_cap30
  by (simp add: clamp_def)

text \<open>
  C7. At each of the three places where the unlock decision is made (the capsule object
  of the AR scene, the details panel of the selected capsule, a row of the capsule list
  with a location), the capsule is unlockable exactly when its distance is strictly below
  50: at 49 m it is, at exactly 50 m it is not.
\<close>

theorem unlock_strictly_below_50:
  "isUnlockable (capsuleObject cd cb loc c) = (cd loc (coordinates c) < 50)
   \<and> panelUnlocked cd loc c = (cd loc (coordinates c) < 50)
   \<and> listIsUnlockable cd (Some loc) c = (cd loc (coordinates c) < 50)
   \<and> (cd loc (coordinates c) = 49 \<longrightarrow>
        isUnlockable (capsuleObject cd cb loc c) \<and> panelUnlocked cd loc c
        \<and> listIsUnlockable cd (Some loc) c)
   \<and> (cd loc (coordinates c) = 50 \<longrightarrow>
        \<not> isUnlockable (capsuleObject cd cb loc c) \<and> \<not> panelUnlocked cd loc c
        \<and> \<not> listIsUnlockable cd (Some loc) c)"
  by (simp add: capsuleObject_def Let_def panelUnlocked_def listIsUnlockable_def listDistance_def)

theorem unlock_strictly_below_50_witness:
  "calculateDistance origin (coordinates cap49) = 49
   \<and> isUnlockable (capsuleObject calculateDistance (\<lambda>a b. 0) origin cap49)
   \<and> panelUnlocked calculateDistance origin cap49
   \<and> listIsUnlockable calculateDistance (Some origin) cap49
   \<and> calculateDistance origin (coordinates cap50) = 50
   \<and> \<not> isUnlockable (capsuleObject calculateDistance (\<lambda>a b. 0) origin cap50)
   \<and> \<not> panelUnlocked calculateDistance origin cap50
   \<and> \<not> listIsUnlockable calculateDistance (Some origin) cap50"
  using unlock_strictly_below_50[of calculateDistance "\<lambda>a b. 0" origin cap49]
        unlock_strictly_below_50[of calculateDistance "\<lambda>a b. 0" origin cap50]
        dist_cap49 dist_cap50
  by simp

subsection \<open>The nearby filter\<close>



subsection \<open>Absent location\<close>

text \<open>
  C9, as amended. While there is no fix (\<^verbatim>\<open>location\<close> is null):
  \<^verbatim>\<open>handleSaveCapsule\<close> stores the coordinates \<open>(0, 0)\<close> in the new capsule; the
  capsule list substitutes no coordinate: it takes the distance of every row to be
  \<^verbatim>\<open>Infinity\<close>, so that no capsule is unlockable; the nearby filter does not run
  and leaves the state as it is; the AR view is not rendered. None of these paths
  computes a distance from the absent location, and none throws.
\<close>

theorem absent_location_paths:
  assumes "location st = None"
  shows "(currentUser st = Some u \<longrightarrow>
            capsules (handleSaveCapsule n1 n2 cont an nm img vid aud sig st)
              = capsules st
                @ [\<lparr>capsule_id = toString n1, content = cont, timestamp = n2,
                    coordinates = \<lparr>latitude = 0, longitude = 0\<rparr>, locationName = nm,
                    aiAnalysis = an, isLocked = False, image_data = img, video = vid,
                    audio = aud, signalData = sig, userId = user_id u\<rparr>])
       \<and> listDistance cd (location st) c = Infinity
       \<and> \<not> listIsUnlockable cd (location st) c
       \<and> nearbyEffect cd st = st
       \<and> \<not> arViewRendered st"
  using assms
  by (simp add: handleSaveCapsule_def listDistance_def listIsUnlockable_def nearbyEffect_def
      arViewRendered_def)

theorem absent_location_paths_witness:
  "location noFix = None \<and> currentUser noFix = Some operator
   \<and> coordinates (last (capsules (handleSaveCapsule 17 18 ''hi'' ''log'' ''Sector'' None None None None noFix)))
       = \<lparr>latitude = 0, longitude = 0\<rparr>
   \<and> listDistance calculateDistance (location noFix) capHere1 = Infinity
   \<and> nearbyEffect calculateDistance noFix = noFix"
proof -
  have l: "location noFix = None" and u: "currentUser noFix = Some operator"
    by (simp_all add: noFix_def)
  from absent_location_paths[OF l, of operator 17 18 "''hi''" "''log''" "''Sector''" None None None None
         calculateDistance capHere1] l u
  show ?thesis
    by simp
qed

text \<open>
  The claim as stated fails without a fix on a capsule that lies at \<open>(0, 0)\<close>: with
  \<open>(0, 0)\<close> in place of the user location its distance is 0, it is unlockable and
  nearby; the capsule list gives it the distance \<^verbatim>\<open>Infinity\<close> and keeps it locked,
  and the nearby filter leaves the nearby capsules empty.
\<close>

theorem absent_location_counterexample:
  "location noFix = None
   \<and> capsules noFix = [capHere1]
   \<and> listDistance calculateDistance (location noFix) capHere1 = Infinity
   \<and> listDistance calculateDistance (Some \<lparr>latitude = 0, longitude = 0\<rparr>) capHere1 = Meters 0
   \<and> \<not> listIsUnlockable calculateDistance (location noFix) capHere1
   \<and> listIsUnlockable calculateDistance (Some \<lparr>latitude = 0, longitude = 0\<rparr>) capHere1
   \<and> nearbyCapsules (nearbyEffect calculateDistance noFix) = []
   \<and> nearbyCapsules (nearbyEffect calculateDistance (noFix\<lparr>location := Some \<lparr>latitude = 0, longitude = 0\<rparr>\<rparr>))
       = [capHere1]"
  using dist_capHere1
  by (simp add: noFix_def listDistance_def listIsUnlockable_def nearbyEffect_def origin_def)

end
